theory Spec2Isabelle
  imports Main
begin

section \<open>Documents, CST nodes and reference descriptions\<close>

text \<open>
  URIs are compared by \<open>equalURI\<close> through their string form, so a URI is its string.
\<close>

type_synonym uri = string

text \<open>
  Modelled from the spec: \<open>equalURI\<close> of utils/uri-util is not under src/. Two URIs are
  equal when they name the same document.
\<close>

definition equalURI :: "uri \<Rightarrow> uri \<Rightarrow> bool" where
  "equalURI a b = (a = b)"

text \<open>
  A CST node with the fields the code reads: its text extent (\<open>offset\<close>, \<open>end\<close>) and an
  identity, so that \<open>===\<close> on two nodes of the same extent tells them apart.
\<close>

record cst_node =
  cst_id :: nat
  cst_offset :: nat
  cst_end :: nat

record document_segment =
  seg_offset :: nat
  seg_end :: nat
  seg_length :: nat

text \<open>
  Modelled from the spec: \<open>toDocumentSegment\<close> of utils/cst-util is not under src/. It
  gives the text range of a CST node, and nothing for an absent node.
\<close>

definition toDocumentSegment :: "cst_node option \<Rightarrow> document_segment option" where
  "toDocumentSegment node =
     (case node of
        None \<Rightarrow> None
      | Some n \<Rightarrow> Some \<lparr>seg_offset = cst_offset n, seg_end = cst_end n,
                         seg_length = cst_end n - cst_offset n\<rparr>)"

text \<open>
  An \<open>AstNodeDescription\<close>: the stand-in for a declaration that scopes and the index hold.
\<close>

record 'n ast_node_description =
  node :: "'n option"
  name :: string
  nameSegment :: "document_segment option"
  selectionSegment :: "document_segment option"
  type :: string
  documentUri :: uri
  path :: string

text \<open>
  Modelled from the spec: the \<open>MultiMap\<close> behind \<open>PrecomputedScopes\<close> is not under src/. It
  maps a container node to the ordered sequence of descriptions visible at it: \<open>get\<close> gives
  the descriptions of a key in insertion order (none for an unknown key), \<open>add\<close> appends
  one.
\<close>

type_synonym 'n precomputed_scopes = "'n \<Rightarrow> 'n ast_node_description list"

definition add :: "'n precomputed_scopes \<Rightarrow> 'n \<Rightarrow> 'n ast_node_description \<Rightarrow> 'n precomputed_scopes" where
  "add scopes key v = scopes(key := scopes key @ [v])"

record 'n langium_document =
  uri :: uri
  precomputedScopes :: "'n precomputed_scopes option"

record reference_description =
  sourceUri :: uri
  sourcePath :: string
  targetUri :: uri
  targetPath :: string
  segment :: "document_segment option"
  local :: "bool option"

record find_references_options =
  onlyLocal :: "bool option"
  options_documentUri :: "uri option"
  includeDeclaration :: "bool option"


text \<open>
  A \<open>Reference\<close> holds its resolved target \<open>ref\<close> (absent while unresolved) and the CST
  node \<open>$refNode\<close> it was written at.
\<close>

datatype 'n reference = Reference (ref: "'n option") (refNode: "cst_node option")

text \<open>
  The value of a property read dynamically from a \<open>GenericAstNode\<close>: a reference, an
  array, a primitive value, or nothing.
\<close>

datatype 'n property_value =
    PReference "'n reference"
  | PArray "'n property_value list"
  | PPrimitive string
  | PUndefined

datatype assignment = Assignment (feature: string)

text \<open>
  A \<open>ReferenceInfo\<close>: the node holding the reference and the property it is stored in.
\<close>

record 'n reference_info =
  container :: 'n
  property_name :: string

text \<open>
  What the classes read from their surroundings, over an AST node type \<open>'n\<close>: the services
  injected by their constructors (\<open>nameProvider\<close>: \<open>getName\<close>, \<open>getNameNode\<close>;
  \<open>astNodeLocator\<close>: \<open>getAstNodePath\<close>; \<open>indexManager\<close>: \<open>allElements\<close>,
  \<open>findAllReferences\<close>; \<open>reflection\<close>: \<open>getReferenceType\<close>, \<open>isSubtype\<close>; \<open>descriptions\<close>:
  \<open>createDescription\<close>), the imported utilities that are not under src/ (\<open>getDocument\<close>,
  \<open>findAssignment\<close>, \<open>isCstChildNode\<close>, \<open>streamAllContents\<close>), and the two links of the syntax
  tree that AST and CST nodes hold to each other: \<open>element\<close> from a CST node to its AST node
  and the dynamic property read \<open>node[feature]\<close>. They are parameters: every theorem holds
  for whatever they compute. \<open>getDocument\<close> is taken on nodes that have a document;
  \<open>getDocument_checked\<close> below models its failure on a tree without one.
\<close>

record 'n langium_services =
  getName :: "'n \<Rightarrow> string option"
  getNameNode :: "'n \<Rightarrow> cst_node option"
  getAstNodePath :: "'n \<Rightarrow> string"
  allElements :: "string \<Rightarrow> 'n ast_node_description list"
  findAllReferences :: "'n \<Rightarrow> string \<Rightarrow> reference_description list"
  getReferenceType :: "'n reference_info \<Rightarrow> string"
  isSubtype :: "string \<Rightarrow> string \<Rightarrow> bool"
  createDescription :: "'n \<Rightarrow> string \<Rightarrow> 'n langium_document \<Rightarrow> 'n ast_node_description"
  getDocument :: "'n \<Rightarrow> 'n langium_document"
  findAssignment :: "cst_node \<Rightarrow> assignment option"
  isCstChildNode :: "cst_node \<Rightarrow> cst_node \<Rightarrow> bool"
  streamAllContents :: "'n \<Rightarrow> 'n list"
  element :: "cst_node \<Rightarrow> 'n option"
  property :: "'n \<Rightarrow> string \<Rightarrow> 'n property_value"


section \<open>Finding declarations and references (src/unnamed/part_001)\<close>

text \<open>
  \<open>DefaultReferences\<close> is language independent: the AST node type stays the parameter
  \<open>'n\<close>.
\<close>

text \<open>
  The \<open>for\<close> loop of \<open>findDeclaration\<close> over an array value. \<open>None\<close>: the loop ended
  without returning; \<open>Some r\<close>: it returned \<open>r\<close>, the \<open>ref\<close> of the first reference whose
  \<open>$refNode\<close> extent contains the source node (\<open>r\<close> is \<open>None\<close> when that reference is
  unresolved).
\<close>

fun findInArray :: "cst_node \<Rightarrow> 'n property_value list \<Rightarrow> 'n option option" where
  "findInArray sourceCstNode [] = None"
| "findInArray sourceCstNode (PReference r # rest) =
     (case refNode r of
        Some n \<Rightarrow>
          if cst_offset n \<le> cst_offset sourceCstNode \<and> cst_end n \<ge> cst_end sourceCstNode
          then Some (ref r)
          else findInArray sourceCstNode rest
      | None \<Rightarrow> findInArray sourceCstNode rest)"
| "findInArray sourceCstNode (v # rest) = findInArray sourceCstNode rest"

text \<open>
  The first block of \<open>findDeclaration\<close> (\<open>if (assignment && nodeElem)\<close>): \<open>Some r\<close> when it
  returns \<open>r\<close>, \<open>None\<close> when control falls through to the name-node check.
\<close>

definition findReferenceTarget ::
  "'n langium_services \<Rightarrow> cst_node \<Rightarrow> 'n option option" where
  "findReferenceTarget svc sourceCstNode =
     (case (findAssignment svc sourceCstNode, element svc sourceCstNode) of
        (Some a, Some nodeElem) \<Rightarrow>
          (case property svc nodeElem (feature a) of
             PReference r \<Rightarrow> Some (ref r)
           | PArray refs \<Rightarrow> findInArray sourceCstNode refs
           | _ \<Rightarrow> None)
      | _ \<Rightarrow> None)"

text \<open>The second block (\<open>if (nodeElem)\<close>): the name-node check.\<close>

definition findNamedElement :: "'n langium_services \<Rightarrow> cst_node \<Rightarrow> 'n option" where
  "findNamedElement svc sourceCstNode =
     (case element svc sourceCstNode of
        None \<Rightarrow> None
      | Some nodeElem \<Rightarrow>
          (case getNameNode svc nodeElem of
             None \<Rightarrow> None
           | Some nameNode \<Rightarrow>
               if nameNode = sourceCstNode \<or> isCstChildNode svc sourceCstNode nameNode
               then Some nodeElem
               else None))"

definition findDeclaration :: "'n langium_services \<Rightarrow> cst_node option \<Rightarrow> 'n option" where
  "findDeclaration svc sourceCstNode =
     (case sourceCstNode of
        None \<Rightarrow> None
      | Some src \<Rightarrow>
          (case findReferenceTarget svc src of
             Some result \<Rightarrow> result
           | None \<Rightarrow> findNamedElement svc src))"

definition getReferenceToSelf ::
  "'n langium_services \<Rightarrow> 'n \<Rightarrow> reference_description option" where
  "getReferenceToSelf svc targetNode =
     (case getNameNode svc targetNode of
        Some nameNode \<Rightarrow>
          Some \<lparr>sourceUri = uri (getDocument svc targetNode),
                sourcePath = getAstNodePath svc targetNode,
                targetUri = uri (getDocument svc targetNode),
                targetPath = getAstNodePath svc targetNode,
                segment = toDocumentSegment (Some nameNode),
                local = Some True\<rparr>
      | None \<Rightarrow> None)"

definition findReferences ::
  "'n langium_services \<Rightarrow> 'n \<Rightarrow> find_references_options \<Rightarrow> reference_description list" where
  "findReferences svc targetNode options =
     (let refs = (if includeDeclaration options = Some True
                  then (case getReferenceToSelf svc targetNode of
                          Some r \<Rightarrow> [r]
                        | None \<Rightarrow> [])
                  else []);
          indexReferences = findAllReferences svc targetNode (getAstNodePath svc targetNode);
          indexReferences = (case options_documentUri options of
                               Some u \<Rightarrow> filter (\<lambda>r. equalURI (sourceUri r) u) indexReferences
                             | None \<Rightarrow> indexReferences)
      in refs @ indexReferences)"

text \<open>
  Modelled from the spec: \<open>IndexManager.findAllReferences\<close> (workspace/index-manager) is not
  under src/. The index holds, per document URI, the outgoing reference descriptions of that
  document; the query streams those that point at the target's identity, its document URI
  and its structural path.
\<close>

type_synonym reference_index = "(uri \<times> reference_description list) list"

definition index_findAllReferences ::
  "reference_index \<Rightarrow> uri \<Rightarrow> string \<Rightarrow> reference_description list" where
  "index_findAllReferences referenceIndex targetDocUri astNodePath =
     filter (\<lambda>r. equalURI (targetUri r) targetDocUri \<and> targetPath r = astNodePath)
            (concat (map snd referenceIndex))"

text \<open>The services of a \<open>DefaultReferences\<close> whose \<open>index\<close> is that index manager.\<close>

definition with_index :: "reference_index \<Rightarrow> 'n langium_services \<Rightarrow> 'n langium_services" where
  "with_index referenceIndex svc =
     svc\<lparr>findAllReferences :=
           (\<lambda>targetNode astNodePath.
              index_findAllReferences referenceIndex (uri (getDocument svc targetNode)) astNodePath)\<rparr>"


section \<open>The grammar AST\<close>

text \<open>
  Modelled from the spec: the AST interfaces of generated/ast are not under src/. These are
  the node kinds of the grammar language that the scope classes tell apart, each with the
  properties the code reads. A parser rule has a name, an optional \<open>returnType\<close> reference
  (its text), an optional primitive \<open>dataType\<close> and an optional \<open>inferredType\<close> child; an
  action has an optional \<open>inferredType\<close> child; a grammar owns its imports.
\<close>

datatype grammar_import = GrammarImport (import_path: string)

datatype primitive_type = PrimString | PrimNumber | PrimBoolean | PrimDate | PrimBigint

datatype inferred_type = InferredType string "cst_node option"

datatype node_data =
    Grammar "grammar_import list"
  | ParserRule string "string option" "primitive_type option" "inferred_type option"
  | Action "inferred_type option"
  | InferredTypeNode string
  | ReturnType string
  | OtherNode string

text \<open>
  An AST node with its \<open>$cstNode\<close> and its \<open>$container\<close> back-link. A child held in a
  property of its container is stored there without the back-link (\<open>inferred_type\<close>) and gets
  it when the property is read (\<open>inferredType\<close>).
\<close>

datatype ast_node =
  AstNode (dollar_data: node_data) (dollar_cstNode: "cst_node option")
          (dollar_container: "ast_node option")

definition isGrammar :: "ast_node \<Rightarrow> bool" where
  "isGrammar n = (case dollar_data n of Grammar _ \<Rightarrow> True | _ \<Rightarrow> False)"

definition isParserRule :: "ast_node \<Rightarrow> bool" where
  "isParserRule n = (case dollar_data n of ParserRule _ _ _ _ \<Rightarrow> True | _ \<Rightarrow> False)"

definition isAction :: "ast_node \<Rightarrow> bool" where
  "isAction n = (case dollar_data n of Action _ \<Rightarrow> True | _ \<Rightarrow> False)"

definition isReturnType :: "ast_node \<Rightarrow> bool" where
  "isReturnType n = (case dollar_data n of ReturnType _ \<Rightarrow> True | _ \<Rightarrow> False)"

definition returnType :: "ast_node \<Rightarrow> string option" where
  "returnType n = (case dollar_data n of ParserRule _ r _ _ \<Rightarrow> r | _ \<Rightarrow> None)"

definition dataType :: "ast_node \<Rightarrow> primitive_type option" where
  "dataType n = (case dollar_data n of ParserRule _ _ d _ \<Rightarrow> d | _ \<Rightarrow> None)"

definition inferredType :: "ast_node \<Rightarrow> ast_node option" where
  "inferredType n =
     (case dollar_data n of
        ParserRule _ _ _ (Some (InferredType nm c)) \<Rightarrow> Some (AstNode (InferredTypeNode nm) c (Some n))
      | Action (Some (InferredType nm c)) \<Rightarrow> Some (AstNode (InferredTypeNode nm) c (Some n))
      | _ \<Rightarrow> None)"

definition grammar_imports :: "ast_node \<Rightarrow> grammar_import list" where
  "grammar_imports n = (case dollar_data n of Grammar imps \<Rightarrow> imps | _ \<Rightarrow> [])"

text \<open>
  The \<open>name\<close> property as the code reads it, on a parser rule or an inferred type
  (\<open>typeNode.name\<close>); the other kinds are not asked for it.
\<close>

fun name_of :: "ast_node \<Rightarrow> string" where
  "name_of (AstNode (ParserRule nm r d i) c k) = nm"
| "name_of (AstNode (InferredTypeNode nm) c k) = nm"
| "name_of (AstNode (ReturnType nm) c k) = nm"

text \<open>
  Modelled from the spec: \<open>findRootNode\<close> and \<open>getContainerOfType\<close> of utils/ast-util are not
  under src/. Both walk the \<open>$container\<close> back-links upwards: the first to the node without a
  container, the second to the nearest node, the start included, that satisfies the predicate.
\<close>

fun findRootNode :: "ast_node \<Rightarrow> ast_node" where
  "findRootNode (AstNode d c None) = AstNode d c None"
| "findRootNode (AstNode d c (Some k)) = findRootNode k"

fun getContainerOfType :: "ast_node \<Rightarrow> (ast_node \<Rightarrow> bool) \<Rightarrow> ast_node option" where
  "getContainerOfType (AstNode d c None) typePredicate =
     (if typePredicate (AstNode d c None) then Some (AstNode d c None) else None)"
| "getContainerOfType (AstNode d c (Some k)) typePredicate =
     (if typePredicate (AstNode d c (Some k)) then Some (AstNode d c (Some k))
      else getContainerOfType k typePredicate)"

text \<open>
  Modelled from the spec: generated/ast is not under src/. These are the type names that
  the scope classes compare with: \<open>AbstractType\<close> is the reference-target category of AST
  node types, \<open>Interface\<close> and \<open>Type\<close> tag the descriptions of declared interfaces and
  of declared union types.
\<close>

definition AbstractType :: string where
  "AbstractType = ''AbstractType''"

definition Interface :: string where
  "Interface = ''Interface''"

definition Type :: string where
  "Type = ''Type''"

text \<open>
  The grammar utilities of internal-grammar-util, not under src/: \<open>resolveImportUri\<close> turns
  an import into the URI of the imported document (nothing when the import has no path),
  \<open>getActionType\<close> gives the type name of an action.
\<close>

record grammar_util =
  resolveImportUri :: "grammar_import \<Rightarrow> uri option"
  getActionType :: "ast_node \<Rightarrow> string option"


section \<open>Scopes (references/scope-provider.ts)\<close>

text \<open>
  Modelled from the spec: \<open>StreamScope\<close>, \<open>EMPTY_SCOPE\<close> and \<open>createScope\<close> of
  references/scope-provider are not under src/. A scope is an ordered lookup object over
  layers of descriptions; lookup by name returns the first match scanning layers
  nearest-first, and all elements are those of the layers in that order.
\<close>

datatype 'n scope =
    EMPTY_SCOPE
  | StreamScope (elements: "'n ast_node_description list") (outerScope: "'n scope option")

fun getAllElements :: "'n scope \<Rightarrow> 'n ast_node_description list" where
  "getAllElements EMPTY_SCOPE = []"
| "getAllElements (StreamScope es None) = es"
| "getAllElements (StreamScope es (Some outer)) = es @ getAllElements outer"

fun getElement :: "'n scope \<Rightarrow> string \<Rightarrow> 'n ast_node_description option" where
  "getElement EMPTY_SCOPE nm = None"
| "getElement (StreamScope es None) nm = find (\<lambda>e. name e = nm) es"
| "getElement (StreamScope es (Some outer)) nm =
     (case find (\<lambda>e. name e = nm) es of
        Some d \<Rightarrow> Some d
      | None \<Rightarrow> getElement outer nm)"

definition createScope :: "'n ast_node_description list \<Rightarrow> 'n scope \<Rightarrow> 'n scope" where
  "createScope es outer = StreamScope es (Some outer)"

text \<open>
  Modelled from the spec: \<open>DefaultScopeProvider\<close> (references/scope-provider) is not under
  src/. Its \<open>getScope\<close> is the default resolution: the precomputed-scope layers of the
  reference's container and of each enclosing container, nearest first, over a global
  layer. The global layer comes from the method \<open>getGlobalScope\<close>, by default all index
  elements of the reference type. \<open>LangiumGrammarScopeProvider\<close> overrides that method
  (\<open>protected override getGlobalScope\<close>), so the method called on \<open>this\<close> is a parameter of
  the inherited \<open>getScope\<close>.
\<close>

fun localScopes ::
  "ast_node precomputed_scopes \<Rightarrow> (ast_node ast_node_description \<Rightarrow> bool) \<Rightarrow> ast_node
   \<Rightarrow> ast_node ast_node_description list list" where
  "localScopes precomputed keep (AstNode d c None) =
     (if precomputed (AstNode d c None) \<noteq> []
      then [filter keep (precomputed (AstNode d c None))] else [])"
| "localScopes precomputed keep (AstNode d c (Some k)) =
     (if precomputed (AstNode d c (Some k)) \<noteq> []
      then [filter keep (precomputed (AstNode d c (Some k)))] else [])
     @ localScopes precomputed keep k"

definition DefaultScopeProvider_getGlobalScope ::
  "ast_node langium_services \<Rightarrow> string \<Rightarrow> ast_node reference_info \<Rightarrow> ast_node scope" where
  "DefaultScopeProvider_getGlobalScope svc referenceType context =
     StreamScope (allElements svc referenceType) None"

definition DefaultScopeProvider_getScope ::
  "ast_node langium_services \<Rightarrow> (string \<Rightarrow> ast_node reference_info \<Rightarrow> ast_node scope)
   \<Rightarrow> ast_node reference_info \<Rightarrow> ast_node scope" where
  "DefaultScopeProvider_getScope svc this_getGlobalScope context =
     (let referenceType = getReferenceType svc context;
          scopes = (case precomputedScopes (getDocument svc (container context)) of
                      None \<Rightarrow> []
                    | Some precomputed \<Rightarrow>
                        localScopes precomputed
                          (\<lambda>desc. isSubtype svc (type desc) referenceType) (container context))
      in foldr createScope scopes (this_getGlobalScope referenceType context))"


section \<open>The grammar's scope provider (grammar/references/grammar-scope.ts)\<close>

definition getGlobalScope ::
  "ast_node langium_services \<Rightarrow> grammar_util \<Rightarrow> string \<Rightarrow> ast_node reference_info
   \<Rightarrow> ast_node scope" where
  "getGlobalScope svc util referenceType context =
     (case getContainerOfType (container context) isGrammar of
        None \<Rightarrow> EMPTY_SCOPE
      | Some grammar \<Rightarrow>
          (let importedUris = List.map_filter (resolveImportUri util) (grammar_imports grammar);
               importedElements =
                 filter (\<lambda>des. list_ex (\<lambda>importedUri. equalURI (documentUri des) importedUri)
                                        importedUris)
                        (allElements svc referenceType);
               importedElements =
                 (if referenceType = AbstractType
                  then filter (\<lambda>des. type des = Interface \<or> type des = Type) importedElements
                  else importedElements)
           in StreamScope importedElements None))"

definition getTypeScope ::
  "ast_node langium_services \<Rightarrow> grammar_util \<Rightarrow> string \<Rightarrow> ast_node reference_info
   \<Rightarrow> ast_node scope" where
  "getTypeScope svc util referenceType context =
     (let localScope =
            (case precomputedScopes (getDocument svc (container context)) of
               None \<Rightarrow> None
             | Some precomputed \<Rightarrow>
                 (let allDescriptions = precomputed (findRootNode (container context))
                  in if length allDescriptions > 0
                     then Some (filter (\<lambda>des. type des = Interface \<or> type des = Type)
                                       allDescriptions)
                     else None));
          globalScope = getGlobalScope svc util referenceType context
      in case localScope of
           Some l \<Rightarrow> createScope l globalScope
         | None \<Rightarrow> globalScope)"

definition getScope ::
  "ast_node langium_services \<Rightarrow> grammar_util \<Rightarrow> ast_node reference_info \<Rightarrow> ast_node scope" where
  "getScope svc util context =
     (let referenceType = getReferenceType svc context
      in if referenceType = AbstractType
         then getTypeScope svc util referenceType context
         else DefaultScopeProvider_getScope svc (getGlobalScope svc util) context)"


text \<open>
  Modelled from the spec: \<open>getDocument\<close> of utils/ast-util is not under src/. It gives the
  document that the root of the node's tree holds in \<open>$document\<close>, and raises
  \<open>AST node has no document.\<close> when the root holds none. \<open>dollar_document\<close> is that link.
\<close>

datatype error = AstNodeHasNoDocument

definition getDocument_checked ::
  "(ast_node \<Rightarrow> ast_node langium_document option) \<Rightarrow> ast_node
   \<Rightarrow> error + ast_node langium_document" where
  "getDocument_checked dollar_document n =
     (case dollar_document (findRootNode n) of
        None \<Rightarrow> Inl AstNodeHasNoDocument
      | Some document \<Rightarrow> Inr document)"

text \<open>
  \<open>getScope\<close> on a reference whose tree may lack a document. Both branches of \<open>getScope\<close>
  read \<open>getDocument(context.container)\<close> before anything else of the tree (line 39 of
  \<open>getTypeScope\<close>, and the inherited \<open>getScope\<close>), and \<open>getGlobalScope\<close> is called after it:
  the request fails there when the tree has no document, and goes on with the document
  found otherwise.
\<close>

definition getScope_checked ::
  "(ast_node \<Rightarrow> ast_node langium_document option) \<Rightarrow> ast_node langium_services
   \<Rightarrow> grammar_util \<Rightarrow> ast_node reference_info \<Rightarrow> error + ast_node scope" where
  "getScope_checked dollar_document svc util context =
     (case getDocument_checked dollar_document (container context) of
        Inl e \<Rightarrow> Inl e
      | Inr document \<Rightarrow> Inr (getScope (svc\<lparr>getDocument := (\<lambda>n. document)\<rparr>) util context))"


section \<open>The grammar's scope computation (grammar/references/grammar-scope.ts)\<close>

text \<open>The local constant \<open>typeNode\<close> of both methods: \<open>node.inferredType ?? node\<close>.\<close>

definition typeNode :: "ast_node \<Rightarrow> ast_node" where
  "typeNode n = (case inferredType n of Some t \<Rightarrow> t | None \<Rightarrow> n)"

definition createInterfaceDescription ::
  "ast_node langium_services \<Rightarrow> ast_node \<Rightarrow> string \<Rightarrow> ast_node langium_document
   \<Rightarrow> ast_node ast_node_description" where
  "createInterfaceDescription svc n nm document =
     (let nameNode = (case getNameNode svc n of Some c \<Rightarrow> Some c | None \<Rightarrow> dollar_cstNode n)
      in \<lparr>node = Some n,
          name = nm,
          nameSegment = toDocumentSegment nameNode,
          selectionSegment = toDocumentSegment (dollar_cstNode n),
          type = ''Interface'',
          documentUri = uri document,
          path = getAstNodePath svc n\<rparr>)"

text \<open>
  Modelled from the spec: \<open>DefaultScopeComputation\<close> (references/scope-computation) is not
  under src/. Its \<open>exportNode\<close> exports a named node under its own name; its \<open>processNode\<close>
  makes a named node visible at its container.
\<close>

definition DefaultScopeComputation_exportNode ::
  "ast_node langium_services \<Rightarrow> ast_node \<Rightarrow> ast_node ast_node_description list
   \<Rightarrow> ast_node langium_document \<Rightarrow> ast_node ast_node_description list" where
  "DefaultScopeComputation_exportNode svc n exports document =
     (case getName svc n of
        Some nm \<Rightarrow> if nm \<noteq> [] then exports @ [createDescription svc n nm document] else exports
      | None \<Rightarrow> exports)"

definition DefaultScopeComputation_processNode ::
  "ast_node langium_services \<Rightarrow> ast_node \<Rightarrow> ast_node langium_document
   \<Rightarrow> ast_node precomputed_scopes \<Rightarrow> ast_node precomputed_scopes" where
  "DefaultScopeComputation_processNode svc n document scopes =
     (case dollar_container n of
        None \<Rightarrow> scopes
      | Some k \<Rightarrow>
          (case getName svc n of
             Some nm \<Rightarrow>
               if nm \<noteq> [] then add scopes k (createDescription svc n nm document) else scopes
           | None \<Rightarrow> scopes))"

text \<open>The body of the \<open>forEach\<close> over the contents of a parser rule in \<open>exportNode\<close>.\<close>

definition exportAction ::
  "ast_node langium_services \<Rightarrow> grammar_util \<Rightarrow> ast_node langium_document
   \<Rightarrow> ast_node ast_node_description list \<Rightarrow> ast_node \<Rightarrow> ast_node ast_node_description list" where
  "exportAction svc util document exports childNode =
     (if isAction childNode \<and> inferredType childNode \<noteq> None
      then (case getActionType util childNode of
              Some typeName \<Rightarrow>
                if typeName \<noteq> []
                then exports @ [createInterfaceDescription svc childNode typeName document]
                else exports
            | None \<Rightarrow> exports)
      else exports)"

definition exportNode ::
  "ast_node langium_services \<Rightarrow> grammar_util \<Rightarrow> ast_node \<Rightarrow> ast_node ast_node_description list
   \<Rightarrow> ast_node langium_document \<Rightarrow> ast_node ast_node_description list" where
  "exportNode svc util n exports document =
     (let exports = DefaultScopeComputation_exportNode svc n exports document
      in if isParserRule n
         then (let exports =
                     (if returnType n = None \<and> dataType n = None
                      then exports @ [createInterfaceDescription svc (typeNode n)
                                        (name_of (typeNode n)) document]
                      else exports)
               in foldl (exportAction svc util document) exports (streamAllContents svc n))
         else exports)"

definition processTypeNode ::
  "ast_node langium_services \<Rightarrow> ast_node \<Rightarrow> ast_node langium_document
   \<Rightarrow> ast_node precomputed_scopes \<Rightarrow> ast_node precomputed_scopes" where
  "processTypeNode svc n document scopes =
     (case dollar_container n of
        Some k \<Rightarrow>
          if isParserRule n \<and> returnType n = None \<and> dataType n = None
          then add scopes k
                 (createInterfaceDescription svc (typeNode n) (name_of (typeNode n)) document)
          else scopes
      | None \<Rightarrow> scopes)"

definition processActionNode ::
  "ast_node langium_services \<Rightarrow> grammar_util \<Rightarrow> ast_node \<Rightarrow> ast_node langium_document
   \<Rightarrow> ast_node precomputed_scopes \<Rightarrow> ast_node precomputed_scopes" where
  "processActionNode svc util n document scopes =
     (let k = findRootNode n
      in if isAction n \<and> inferredType n \<noteq> None
         then (case getActionType util n of
                 Some typeName \<Rightarrow>
                   if typeName \<noteq> []
                   then add scopes k (createInterfaceDescription svc n typeName document)
                   else scopes
               | None \<Rightarrow> scopes)
         else scopes)"

definition processNode ::
  "ast_node langium_services \<Rightarrow> grammar_util \<Rightarrow> ast_node \<Rightarrow> ast_node langium_document
   \<Rightarrow> ast_node precomputed_scopes \<Rightarrow> ast_node precomputed_scopes" where
  "processNode svc util n document scopes =
     (if isReturnType n then scopes
      else DefaultScopeComputation_processNode svc n document
             (processActionNode svc util n document
                (processTypeNode svc n document scopes)))"


section \<open>The specification's reading of the operations\<close>

text \<open>
  A reference value whose recorded source range contains the queried node's offsets.
\<close>

definition containsSource :: "cst_node \<Rightarrow> 'n property_value \<Rightarrow> bool" where
  "containsSource sourceCstNode v =
     (case v of
        PReference r \<Rightarrow>
          (case refNode r of
             Some n \<Rightarrow>
               cst_offset n \<le> cst_offset sourceCstNode \<and> cst_end n \<ge> cst_end sourceCstNode
           | None \<Rightarrow> False)
      | _ \<Rightarrow> False)"

text \<open>
  \<open>findDeclaration\<close> in the specification's words: under an assignment whose value is a
  single reference, its target; under one whose value is an array of references, the
  target of the element that contains the node; not inside an assignment but on the name
  token of a declaration, that declaration; otherwise nothing.
\<close>

definition findDeclaration_as_specified :: "'n langium_services \<Rightarrow> cst_node \<Rightarrow> 'n option" where
  "findDeclaration_as_specified svc src =
     (case findAssignment svc src of
        Some a \<Rightarrow>
          (case element svc src of
             Some nodeElem \<Rightarrow>
               (case property svc nodeElem (feature a) of
                  PReference r \<Rightarrow> ref r
                | PArray refs \<Rightarrow>
                    (case find (containsSource src) refs of
                       Some (PReference r) \<Rightarrow> ref r
                     | _ \<Rightarrow> None)
                | _ \<Rightarrow> None)
           | None \<Rightarrow> None)
      | None \<Rightarrow> findNamedElement svc src)"

text \<open>
  The AbstractType branch of \<open>getScope\<close> in the specification's words: the local layer is
  built from the precomputed-scope entries at the reference's container.
\<close>

definition getTypeScope_as_specified ::
  "ast_node langium_services \<Rightarrow> grammar_util \<Rightarrow> string \<Rightarrow> ast_node reference_info
   \<Rightarrow> ast_node scope" where
  "getTypeScope_as_specified svc util referenceType context =
     (let localScope =
            (case precomputedScopes (getDocument svc (container context)) of
               None \<Rightarrow> None
             | Some precomputed \<Rightarrow>
                 (let allDescriptions = precomputed (container context)
                  in if length allDescriptions > 0
                     then Some (filter (\<lambda>des. type des = Interface \<or> type des = Type)
                                       allDescriptions)
                     else None));
          globalScope = getGlobalScope svc util referenceType context
      in case localScope of
           Some l \<Rightarrow> createScope l globalScope
         | None \<Rightarrow> globalScope)"

text \<open>
  The other branch in the specification's words: the default resolution with a global
  layer drawn from the entire workspace index, unfiltered by imports.
\<close>

definition getScope_unfiltered ::
  "ast_node langium_services \<Rightarrow> ast_node reference_info \<Rightarrow> ast_node scope" where
  "getScope_unfiltered svc context =
     DefaultScopeProvider_getScope svc (DefaultScopeProvider_getGlobalScope svc) context"

text \<open>The descriptions that an AbstractType reference may resolve to.\<close>

definition isInterfaceOrType :: "ast_node ast_node_description \<Rightarrow> bool" where
  "isInterfaceOrType des = (type des = Interface \<or> type des = Type)"

text \<open>The index descriptions of documents that the grammar imports.\<close>

definition importedBy :: "grammar_util \<Rightarrow> ast_node \<Rightarrow> ast_node ast_node_description \<Rightarrow> bool" where
  "importedBy util grammar des =
     (documentUri des \<in> set (List.map_filter (resolveImportUri util) (grammar_imports grammar)))"

text \<open>
  The two layers of the scope of an AbstractType reference: the Interface and Type
  entries that the document's precomputed scopes hold at the root node of the reference's
  container, and the Interface and Type index descriptions of the documents that the
  enclosing grammar imports.
\<close>

definition localTypeLayer ::
  "ast_node langium_services \<Rightarrow> ast_node reference_info \<Rightarrow> ast_node ast_node_description list" where
  "localTypeLayer svc context =
     filter isInterfaceOrType
       (case precomputedScopes (getDocument svc (container context)) of
          None \<Rightarrow> []
        | Some precomputed \<Rightarrow> precomputed (findRootNode (container context)))"

definition importedTypeLayer ::
  "ast_node langium_services \<Rightarrow> grammar_util \<Rightarrow> ast_node reference_info
   \<Rightarrow> ast_node ast_node_description list" where
  "importedTypeLayer svc util context =
     (case getContainerOfType (container context) isGrammar of
        None \<Rightarrow> []
      | Some grammar \<Rightarrow>
          filter (\<lambda>des. importedBy util grammar des \<and> isInterfaceOrType des)
            (allElements svc AbstractType))"


section \<open>Example inputs\<close>

text \<open>
  A declaration (node 7) named by \<open>name_token\<close> in document a.langium. Its property
  \<open>name\<close> holds a string, \<open>target\<close> an unresolved reference, \<open>items\<close> an array of
  references. Document b.langium refers to it once.
\<close>

definition name_token :: cst_node where
  "name_token = \<lparr>cst_id = 1, cst_offset = 10, cst_end = 13\<rparr>"

definition other_token :: cst_node where
  "other_token = \<lparr>cst_id = 2, cst_offset = 20, cst_end = 23\<rparr>"

definition example_document :: "nat langium_document" where
  "example_document = \<lparr>uri = ''file:///a.langium'', precomputedScopes = None\<rparr>"

definition example_services :: "nat langium_services" where
  "example_services =
     \<lparr>getName = (\<lambda>n. Some ''Foo''),
      getNameNode = (\<lambda>n. if n = 7 then Some name_token else None),
      getAstNodePath = (\<lambda>n. if n = 7 then ''/rules@0'' else ''/rules@1''),
      allElements = (\<lambda>t. []),
      findAllReferences = (\<lambda>n p. []),
      getReferenceType = (\<lambda>c. ''AbstractRule''),
      isSubtype = (\<lambda>a b. a = b),
      createDescription =
        (\<lambda>n nm d. \<lparr>node = Some n, name = nm, nameSegment = None, selectionSegment = None,
                    type = ''ParserRule'', documentUri = uri d, path = []\<rparr>),
      getDocument = (\<lambda>n. example_document),
      findAssignment = (\<lambda>c. Some (Assignment ''name'')),
      isCstChildNode = (\<lambda>a b. False),
      streamAllContents = (\<lambda>n. []),
      element = (\<lambda>c. Some 7),
      property =
        (\<lambda>n f. if f = ''name'' then PPrimitive ''Foo''
               else if f = ''target'' then PReference (Reference None (Some other_token))
               else if f = ''items''
                 then PArray [PReference (Reference (Some 8) (Some other_token))]
               else PUndefined)\<rparr>"

definition unresolved_services :: "nat langium_services" where
  "unresolved_services =
     example_services\<lparr>findAssignment := (\<lambda>c. Some (Assignment ''target''))\<rparr>"

definition incoming_reference :: reference_description where
  "incoming_reference =
     \<lparr>sourceUri = ''file:///b.langium'', sourcePath = ''/rules@3/definition'',
      targetUri = ''file:///a.langium'', targetPath = ''/rules@0'',
      segment = toDocumentSegment (Some other_token), local = Some False\<rparr>"

definition unrelated_reference :: reference_description where
  "unrelated_reference =
     \<lparr>sourceUri = ''file:///b.langium'', sourcePath = ''/rules@4/definition'',
      targetUri = ''file:///a.langium'', targetPath = ''/rules@1'',
      segment = toDocumentSegment (Some other_token), local = Some False\<rparr>"

definition example_index :: reference_index where
  "example_index = [(''file:///b.langium'', [incoming_reference, unrelated_reference])]"

definition self_reference :: reference_description where
  "self_reference =
     \<lparr>sourceUri = ''file:///a.langium'', sourcePath = ''/rules@0'',
      targetUri = ''file:///a.langium'', targetPath = ''/rules@0'',
      segment = toDocumentSegment (Some name_token), local = Some True\<rparr>"

text \<open>
  The grammar main.langium imports types.langium. It has a parser rule \<open>Foo\<close>, whose body
  holds a rule call and, in a group, an action \<open>{infer Baz}\<close>; a parser rule
  \<open>Qux infers Bar\<close>; and an interface that extends another type. The workspace index also
  knows other.langium, which main.langium does not import.
\<close>

definition main_grammar :: ast_node where
  "main_grammar = AstNode (Grammar [GrammarImport ''./types'']) None None"

definition foo_token :: cst_node where
  "foo_token = \<lparr>cst_id = 11, cst_offset = 0, cst_end = 3\<rparr>"

definition foo_rule :: ast_node where
  "foo_rule =
     AstNode (ParserRule ''Foo'' None None None)
       (Some \<lparr>cst_id = 10, cst_offset = 0, cst_end = 40\<rparr>) (Some main_grammar)"

definition rule_call :: ast_node where
  "rule_call = AstNode (OtherNode ''RuleCall'') None (Some foo_rule)"

definition foo_group :: ast_node where
  "foo_group = AstNode (OtherNode ''Group'') None (Some foo_rule)"

definition baz_token :: cst_node where
  "baz_token = \<lparr>cst_id = 13, cst_offset = 20, cst_end = 23\<rparr>"

definition infer_action :: ast_node where
  "infer_action =
     AstNode (Action (Some (InferredType ''Baz'' (Some baz_token))))
       (Some \<lparr>cst_id = 12, cst_offset = 13, cst_end = 24\<rparr>) (Some foo_group)"

definition qux_token :: cst_node where
  "qux_token = \<lparr>cst_id = 21, cst_offset = 50, cst_end = 53\<rparr>"

definition bar_token :: cst_node where
  "bar_token = \<lparr>cst_id = 22, cst_offset = 61, cst_end = 64\<rparr>"

definition qux_rule :: ast_node where
  "qux_rule =
     AstNode (ParserRule ''Qux'' None None (Some (InferredType ''Bar'' (Some bar_token))))
       (Some \<lparr>cst_id = 20, cst_offset = 50, cst_end = 90\<rparr>) (Some main_grammar)"

definition derived_interface :: ast_node where
  "derived_interface = AstNode (OtherNode ''Interface'') None (Some main_grammar)"

definition foo_rule_description :: "ast_node ast_node_description" where
  "foo_rule_description =
     \<lparr>node = Some foo_rule, name = ''Foo'', nameSegment = toDocumentSegment (Some foo_token),
      selectionSegment = None, type = ''ParserRule'',
      documentUri = ''file:///main.langium'', path = ''/rules@0''\<rparr>"

definition foo_type_description :: "ast_node ast_node_description" where
  "foo_type_description =
     \<lparr>node = Some foo_rule, name = ''Foo'', nameSegment = toDocumentSegment (Some foo_token),
      selectionSegment = None, type = ''Interface'',
      documentUri = ''file:///main.langium'', path = ''/rules@0''\<rparr>"

definition shared_description :: "ast_node ast_node_description" where
  "shared_description =
     \<lparr>node = None, name = ''Foo'', nameSegment = None, selectionSegment = None,
      type = ''Interface'', documentUri = ''file:///types.langium'', path = ''/interfaces@0''\<rparr>"

definition hidden_description :: "ast_node ast_node_description" where
  "hidden_description =
     \<lparr>node = None, name = ''Hidden'', nameSegment = None, selectionSegment = None,
      type = ''Interface'', documentUri = ''file:///other.langium'', path = ''/interfaces@0''\<rparr>"

definition other_rule_description :: "ast_node ast_node_description" where
  "other_rule_description =
     \<lparr>node = None, name = ''OtherRule'', nameSegment = None, selectionSegment = None,
      type = ''ParserRule'', documentUri = ''file:///other.langium'', path = ''/rules@0''\<rparr>"

definition main_scopes :: "ast_node precomputed_scopes" where
  "main_scopes =
     (\<lambda>n. if n = main_grammar then [foo_rule_description, foo_type_description] else [])"

definition main_document :: "ast_node langium_document" where
  "main_document = \<lparr>uri = ''file:///main.langium'', precomputedScopes = Some main_scopes\<rparr>"

definition grammar_services :: "ast_node langium_services" where
  "grammar_services =
     \<lparr>getName = (\<lambda>n. case dollar_data n of ParserRule nm r d i \<Rightarrow> Some nm | _ \<Rightarrow> None),
      getNameNode =
        (\<lambda>n. case dollar_data n of
                ParserRule nm r d i \<Rightarrow> Some (if nm = ''Foo'' then foo_token else qux_token)
              | InferredTypeNode nm \<Rightarrow> dollar_cstNode n
              | _ \<Rightarrow> None),
      getAstNodePath =
        (\<lambda>n. case dollar_data n of
                ParserRule nm r d i \<Rightarrow> ''/rules@'' @ nm
              | InferredTypeNode nm \<Rightarrow> ''/inferredType@'' @ nm
              | _ \<Rightarrow> ''/''),
      allElements =
        (\<lambda>t. if t = ''AbstractType'' then [shared_description, hidden_description]
             else [other_rule_description]),
      findAllReferences = (\<lambda>n p. []),
      getReferenceType =
        (\<lambda>c. if property_name c = ''rule'' then ''AbstractRule'' else ''AbstractType''),
      isSubtype = (\<lambda>a b. a = b \<or> (a = ''ParserRule'' \<and> b = ''AbstractRule'')),
      createDescription =
        (\<lambda>n nm d. \<lparr>node = Some n, name = nm, nameSegment = None, selectionSegment = None,
                    type = ''ParserRule'', documentUri = uri d, path = ''/''\<rparr>),
      getDocument = (\<lambda>n. main_document),
      findAssignment = (\<lambda>c. None),
      isCstChildNode = (\<lambda>a b. False),
      streamAllContents = (\<lambda>n. if n = foo_rule then [rule_call, foo_group, infer_action] else []),
      element = (\<lambda>c. None),
      property = (\<lambda>n f. PUndefined)\<rparr>"

definition grammar_utils :: grammar_util where
  "grammar_utils =
     \<lparr>resolveImportUri =
        (\<lambda>i. if import_path i = ''./types'' then Some ''file:///types.langium'' else None),
      getActionType =
        (\<lambda>n. case dollar_data n of Action (Some (InferredType nm c)) \<Rightarrow> Some nm | _ \<Rightarrow> None)\<rparr>"

text \<open>
  A rule that is the root of its own tree, with no grammar around it, and an action
  \<open>{infer Baz}\<close> inside; its document holds the scopes that \<open>processActionNode\<close> computes
  for that action.
\<close>

definition detached_rule :: ast_node where
  "detached_rule = AstNode (ParserRule ''Foo'' None None None) None None"

definition detached_action :: ast_node where
  "detached_action =
     AstNode (Action (Some (InferredType ''Baz'' (Some baz_token)))) None (Some detached_rule)"

definition detached_scopes :: "ast_node precomputed_scopes" where
  "detached_scopes =
     processActionNode grammar_services grammar_utils detached_action
       \<lparr>uri = ''file:///detached.langium'', precomputedScopes = None\<rparr> (\<lambda>k. [])"

definition detached_document :: "ast_node langium_document" where
  "detached_document =
     \<lparr>uri = ''file:///detached.langium'', precomputedScopes = Some detached_scopes\<rparr>"

definition detached_services :: "ast_node langium_services" where
  "detached_services = grammar_services\<lparr>getDocument := (\<lambda>n. detached_document)\<rparr>"

text \<open>
  Three references: a rule call inside rule \<open>Foo\<close>, the super type of the interface, and
  the type of the action in the detached rule.
\<close>

definition rule_call_context :: "ast_node reference_info" where
  "rule_call_context = \<lparr>container = rule_call, property_name = ''rule''\<rparr>"

definition super_type_context :: "ast_node reference_info" where
  "super_type_context = \<lparr>container = derived_interface, property_name = ''superTypes''\<rparr>"

definition detached_context :: "ast_node reference_info" where
  "detached_context = \<lparr>container = detached_action, property_name = ''type''\<rparr>"


text \<open>
  The options of a request for the references from b.langium, declaration included.
\<close>

definition declaration_options :: find_references_options where
  "declaration_options =
     \<lparr>onlyLocal = None, options_documentUri = Some ''file:///b.langium'',
      includeDeclaration = Some True\<rparr>"

text \<open>
  The \<open>$document\<close> links of two states of the detached rule: not yet attached to any
  document, and attached to \<open>detached_document\<close>.
\<close>

definition no_documents :: "ast_node \<Rightarrow> ast_node langium_document option" where
  "no_documents = (\<lambda>n. None)"

definition detached_documents :: "ast_node \<Rightarrow> ast_node langium_document option" where
  "detached_documents = (\<lambda>n. if n = detached_rule then Some detached_document else None)"


section \<open>Properties of \<open>findDeclaration\<close> and \<open>findReferences\<close>\<close>

lemma findInArray_find:
  "findInArray src refs =
     (case find (containsSource src) refs of
        Some (PReference r) \<Rightarrow> Some (ref r)
      | _ \<Rightarrow> None)"
  by (induction src refs rule: findInArray.induct)
     (auto simp: containsSource_def split: option.splits)

text \<open>
  C3, as amended. \<open>findDeclaration\<close> on a CST node: under an assignment whose value is a
  single reference it returns the reference's target; under one whose value is an array
  it returns the target of the first reference whose recorded range contains the node's
  offsets; in every other case, also inside an assignment whose value is neither (such as
  \<open>name=ID\<close>) or whose array has no such reference, it returns the node's AST element when
  the name node of that element is the node itself or contains it, and nothing when the
  node has no element, the element has no name node, or the name node is another one.
\<close>

theorem findDeclaration_cases:
  "findDeclaration svc (Some src) =
     (let named =
            (case element svc src of
               None \<Rightarrow> None
             | Some nodeElem \<Rightarrow>
                 (case getNameNode svc nodeElem of
                    None \<Rightarrow> None
                  | Some nameNode \<Rightarrow>
                      if nameNode = src \<or> isCstChildNode svc src nameNode
                      then Some nodeElem
                      else None))
      in case (findAssignment svc src, element svc src) of
           (Some a, Some nodeElem) \<Rightarrow>
             (case property svc nodeElem (feature a) of
                PReference r \<Rightarrow> ref r
              | PArray refs \<Rightarrow>
                  (case find (containsSource src) refs of
                     Some (PReference r) \<Rightarrow> ref r
                   | _ \<Rightarrow> named)
              | _ \<Rightarrow> named)
         | _ \<Rightarrow> named)"
  by (simp add: findDeclaration_def findReferenceTarget_def findNamedElement_def
      findInArray_find Let_def split: option.splits property_value.splits)

text \<open>
  C3, witness: on the name token of node 7, which lies under the assignment \<open>name=...\<close>,
  the declaration itself is found; on another token of node 7 nothing is.
\<close>

theorem findDeclaration_cases_witness:
  "findDeclaration example_services (Some name_token) = Some 7
   \<and> findDeclaration example_services (Some other_token) = None"
  using findDeclaration_cases [of example_services name_token]
    findDeclaration_cases [of example_services other_token]
  by (simp add: example_services_def name_token_def other_token_def)

text \<open>
  C3, counterexample to the claim as stated: the name token of node 7 is inside an
  assignment whose value is a plain string, so the claim's last case gives nothing, yet
  \<open>findDeclaration\<close> returns node 7.
\<close>

theorem findDeclaration_counterexample:
  "findAssignment example_services name_token = Some (Assignment ''name'')
   \<and> findDeclaration example_services (Some name_token) = Some 7
   \<and> findDeclaration_as_specified example_services name_token = None"
  by (simp add: example_services_def findDeclaration_def findReferenceTarget_def
      findNamedElement_def findDeclaration_as_specified_def)

text \<open>
  C10. Under an assignment whose value is a single unresolved reference,
  \<open>findDeclaration\<close> returns nothing at once, whatever the name-token check would give.
\<close>

theorem findDeclaration_unresolved_reference:
  assumes "findAssignment svc src = Some a"
    and "element svc src = Some nodeElem"
    and "property svc nodeElem (feature a) = PReference r"
    and "ref r = None"
  shows "findDeclaration svc (Some src) = None"
  using assms by (simp add: findDeclaration_def findReferenceTarget_def)

text \<open>
  C10, witness: the queried node is the name token of its own element, the name-token
  check alone would return the element, and the result is still nothing.
\<close>

theorem findDeclaration_unresolved_reference_witness:
  "getNameNode unresolved_services 7 = Some name_token
   \<and> findNamedElement unresolved_services name_token = Some 7
   \<and> findDeclaration unresolved_services (Some name_token) = None"
  using findDeclaration_unresolved_reference
    [of unresolved_services name_token "Assignment ''target''" 7
        "Reference None (Some other_token)"]
  by (simp add: unresolved_services_def example_services_def findNamedElement_def)

text \<open>
  C4. \<open>findReferences\<close> returns the index's reference descriptions that point at the
  target's document URI and path, filtered to \<open>options.documentUri\<close> when it is set, after
  a self-reference for the declaration's name node when \<open>options.includeDeclaration\<close> is set
  and the target has a name node.
\<close>

theorem findReferences_stream:
  "findReferences (with_index referenceIndex svc) targetNode options =
     (case getNameNode svc targetNode of
        Some nameNode \<Rightarrow>
          if includeDeclaration options = Some True
          then [\<lparr>sourceUri = uri (getDocument svc targetNode),
                 sourcePath = getAstNodePath svc targetNode,
                 targetUri = uri (getDocument svc targetNode),
                 targetPath = getAstNodePath svc targetNode,
                 segment = toDocumentSegment (Some nameNode),
                 local = Some True\<rparr>]
          else []
      | None \<Rightarrow> [])
     @ filter (\<lambda>r. case options_documentUri options of Some u \<Rightarrow> sourceUri r = u | None \<Rightarrow> True)
         (filter (\<lambda>r. targetUri r = uri (getDocument svc targetNode)
                       \<and> targetPath r = getAstNodePath svc targetNode)
            (concat (map snd referenceIndex)))"
proof (cases "options_documentUri options")
  case None
  then show ?thesis
    by (simp add: findReferences_def with_index_def getReferenceToSelf_def
        index_findAllReferences_def equalURI_def Let_def split: option.splits)
next
  case (Some u)
  then show ?thesis
    by (simp add: findReferences_def with_index_def getReferenceToSelf_def
        index_findAllReferences_def equalURI_def Let_def conj_commute split: option.splits)
qed

text \<open>
  C4, witness: the declaration's self-reference, then the one index entry that points at
  node 7; the entry that points at another node is left out.
\<close>

theorem findReferences_stream_witness:
  "findReferences (with_index example_index example_services) 7
     \<lparr>onlyLocal = None, options_documentUri = None, includeDeclaration = Some True\<rparr>
   = [self_reference, incoming_reference]"
  using findReferences_stream [of example_index example_services 7
     "\<lparr>onlyLocal = None, options_documentUri = None, includeDeclaration = Some True\<rparr>"]
  by (simp add: example_index_def example_services_def example_document_def
      self_reference_def incoming_reference_def unrelated_reference_def)

lemma declaration_options_set:
  "includeDeclaration declaration_options = Some True"
  "options_documentUri declaration_options = Some ''file:///b.langium''"
  by (simp_all add: declaration_options_def)

lemma example_index_references:
  "filter (\<lambda>r. equalURI (sourceUri r) ''file:///b.langium'')
     (findAllReferences (with_index example_index example_services) n
        (getAstNodePath (with_index example_index example_services) n))
   = (if n = 7 then [incoming_reference] else [unrelated_reference])"
  by (simp add: with_index_def example_index_def example_services_def example_document_def
      index_findAllReferences_def equalURI_def incoming_reference_def unrelated_reference_def)

text \<open>
  C9, as amended. With \<open>includeDeclaration\<close> and \<open>documentUri\<close> both set, only the index
  references are filtered by \<open>documentUri\<close>. For a target with a name node the
  self-reference comes first whatever \<open>documentUri\<close> is; it is local, and its source and
  target URI and path are those of the target. For a target without a name node there is
  no self-reference.
\<close>

theorem findReferences_declaration_unfiltered:
  assumes "includeDeclaration options = Some True"
    and "options_documentUri options = Some u"
  shows "findReferences svc targetNode options =
           (case getNameNode svc targetNode of
              Some nameNode \<Rightarrow>
                [\<lparr>sourceUri = uri (getDocument svc targetNode),
                  sourcePath = getAstNodePath svc targetNode,
                  targetUri = uri (getDocument svc targetNode),
                  targetPath = getAstNodePath svc targetNode,
                  segment = toDocumentSegment (Some nameNode),
                  local = Some True\<rparr>]
            | None \<Rightarrow> [])
           @ filter (\<lambda>r. equalURI (sourceUri r) u)
               (findAllReferences svc targetNode (getAstNodePath svc targetNode))"
  using assms
  by (simp add: findReferences_def getReferenceToSelf_def Let_def split: option.splits)

text \<open>
  C9, witness: the target is declared in a.langium and the filter asks for b.langium; the
  self-reference, whose source is a.langium, is returned all the same.
\<close>

theorem findReferences_declaration_unfiltered_witness:
  "uri (getDocument example_services 7) \<noteq> ''file:///b.langium''
   \<and> findReferences (with_index example_index example_services) 7 declaration_options
       = [self_reference, incoming_reference]
   \<and> local self_reference = Some True
   \<and> targetUri self_reference = sourceUri self_reference
   \<and> targetPath self_reference = sourcePath self_reference"
proof -
  have "findReferences (with_index example_index example_services) 7 declaration_options
          = [self_reference, incoming_reference]"
    unfolding findReferences_declaration_unfiltered [OF declaration_options_set]
      example_index_references
    by (simp add: with_index_def example_services_def example_document_def self_reference_def)
  then show ?thesis
    by (simp add: example_services_def example_document_def self_reference_def)
qed

text \<open>
  C9, counterexample to the claim as stated: node 8 has no name node; with both options
  set the result is the one index reference from b.langium and holds no self-reference.
\<close>

theorem findReferences_declaration_counterexample:
  "includeDeclaration declaration_options = Some True
   \<and> options_documentUri declaration_options = Some ''file:///b.langium''
   \<and> getNameNode example_services 8 = None
   \<and> findReferences (with_index example_index example_services) 8 declaration_options
       = [unrelated_reference]
   \<and> local unrelated_reference = Some False
   \<and> sourceUri unrelated_reference \<noteq> targetUri unrelated_reference"
proof -
  have "findReferences (with_index example_index example_services) 8 declaration_options
          = [unrelated_reference]"
    using example_index_references [of 8]
    by (simp add: findReferences_def getReferenceToSelf_def declaration_options_def Let_def)
       (simp add: with_index_def example_services_def)
  then show ?thesis
    by (simp add: declaration_options_set example_services_def unrelated_reference_def)
qed

section \<open>Properties of the grammar's scope provider\<close>

lemma getAllElements_createScope:
  "getAllElements (createScope es outer) = es @ getAllElements outer"
  by (simp add: createScope_def)

lemma getAllElements_foldr_createScope:
  "getAllElements (foldr createScope scopes g) = concat scopes @ getAllElements g"
  by (induction scopes) (simp_all add: getAllElements_createScope)

lemma list_ex_equalURI:
  "list_ex (\<lambda>importedUri. equalURI u importedUri) uris = (u \<in> set uris)"
  by (auto simp: list_ex_iff equalURI_def)

lemma getGlobalScope_elements:
  "getGlobalScope svc util referenceType context =
     (case getContainerOfType (container context) isGrammar of
        None \<Rightarrow> EMPTY_SCOPE
      | Some grammar \<Rightarrow>
          StreamScope
            (filter (\<lambda>des. importedBy util grammar des
                           \<and> (referenceType = AbstractType \<longrightarrow> isInterfaceOrType des))
                    (allElements svc referenceType)) None)"
  by (auto simp: getGlobalScope_def Let_def importedBy_def isInterfaceOrType_def
      list_ex_equalURI split: option.splits intro: filter_cong)

lemma isInterfaceOrType_fun:
  "isInterfaceOrType = (\<lambda>des. type des = Interface \<or> type des = Type)"
  by (simp add: fun_eq_iff isInterfaceOrType_def)

lemma getTypeScope_layers:
  "getAllElements (getTypeScope svc util AbstractType context) =
     localTypeLayer svc context @ importedTypeLayer svc util context"
  by (simp add: getTypeScope_def Let_def localTypeLayer_def importedTypeLayer_def
      getGlobalScope_elements createScope_def isInterfaceOrType_fun
      split: option.splits)

lemma getTypeScope_lookup:
  "getElement (getTypeScope svc util AbstractType context) nm =
     (case find (\<lambda>e. name e = nm) (localTypeLayer svc context) of
        Some d \<Rightarrow> Some d
      | None \<Rightarrow> find (\<lambda>e. name e = nm) (importedTypeLayer svc util context))"
  by (simp add: getTypeScope_def Let_def localTypeLayer_def importedTypeLayer_def
      getGlobalScope_elements createScope_def isInterfaceOrType_fun
      split: option.splits)

lemma getScope_default_elements:
  assumes "getReferenceType svc context \<noteq> AbstractType"
  shows "getAllElements (getScope svc util context) =
           concat (case precomputedScopes (getDocument svc (container context)) of
                     None \<Rightarrow> []
                   | Some precomputed \<Rightarrow>
                       localScopes precomputed
                         (\<lambda>desc. isSubtype svc (type desc) (getReferenceType svc context))
                         (container context))
           @ (case getContainerOfType (container context) isGrammar of
                None \<Rightarrow> []
              | Some grammar \<Rightarrow>
                  filter (importedBy util grammar)
                    (allElements svc (getReferenceType svc context)))"
  using assms
  by (simp add: getScope_def DefaultScopeProvider_getScope_def Let_def
      getAllElements_foldr_createScope getGlobalScope_elements split: option.splits)

lemma getScope_type_elements:
  assumes "getReferenceType svc context = AbstractType"
  shows "getAllElements (getScope svc util context) =
           localTypeLayer svc context @ importedTypeLayer svc util context"
  using assms by (simp add: getScope_def getTypeScope_layers)

lemmas example_nodes =
  main_grammar_def foo_rule_def rule_call_def foo_group_def infer_action_def qux_rule_def
  derived_interface_def

lemmas example_descriptions =
  foo_rule_description_def foo_type_description_def shared_description_def
  hidden_description_def other_rule_description_def

text \<open>
  C1, as amended. A reference whose target category is not AbstractType is resolved by the
  inherited default resolution, whose global layer is the overridden \<open>getGlobalScope\<close>: the
  scope holds the precomputed-scope layers of the container chain and then the index
  descriptions of the reference type whose document is one that the enclosing grammar
  imports; it is not the whole workspace index.
\<close>

theorem getScope_default_resolution:
  assumes "getReferenceType svc context \<noteq> AbstractType"
  shows "getScope svc util context =
           DefaultScopeProvider_getScope svc (getGlobalScope svc util) context
         \<and> getAllElements (getScope svc util context) =
             concat (case precomputedScopes (getDocument svc (container context)) of
                       None \<Rightarrow> []
                     | Some precomputed \<Rightarrow>
                         localScopes precomputed
                           (\<lambda>desc. isSubtype svc (type desc) (getReferenceType svc context))
                           (container context))
             @ (case getContainerOfType (container context) isGrammar of
                  None \<Rightarrow> []
                | Some grammar \<Rightarrow>
                    filter (importedBy util grammar)
                      (allElements svc (getReferenceType svc context)))"
proof
  show "getScope svc util context =
          DefaultScopeProvider_getScope svc (getGlobalScope svc util) context"
    using assms by (simp add: getScope_def)
qed (rule getScope_default_elements [OF assms])

text \<open>
  C1, witness: the rule call inside \<open>Foo\<close> sees the local rule \<open>Foo\<close> and nothing of
  other.langium, which the grammar does not import.
\<close>

theorem getScope_default_resolution_witness:
  "getReferenceType grammar_services rule_call_context \<noteq> AbstractType
   \<and> getAllElements (getScope grammar_services grammar_utils rule_call_context)
       = [foo_rule_description]"
proof -
  have rt: "getReferenceType grammar_services rule_call_context \<noteq> AbstractType"
    by (simp add: grammar_services_def rule_call_context_def AbstractType_def)
  note e = getScope_default_resolution [OF rt, of grammar_utils, THEN conjunct2]
  have "getAllElements (getScope grammar_services grammar_utils rule_call_context)
          = [foo_rule_description]"
    unfolding e
    by (simp add: grammar_services_def grammar_utils_def rule_call_context_def
        main_document_def main_scopes_def example_nodes example_descriptions importedBy_def
        isGrammar_def grammar_imports_def)
  with rt show ?thesis by simp
qed

text \<open>
  C1, counterexample to the claim as stated: with a global layer drawn from the entire
  index the rule of other.langium would be found; \<open>getScope\<close> does not find it.
\<close>

theorem getScope_unfiltered_counterexample:
  "getReferenceType grammar_services rule_call_context \<noteq> AbstractType
   \<and> getElement (getScope_unfiltered grammar_services rule_call_context) ''OtherRule''
       = Some other_rule_description
   \<and> getElement (getScope grammar_services grammar_utils rule_call_context) ''OtherRule'' = None"
  by (simp add: getScope_def getScope_unfiltered_def DefaultScopeProvider_getScope_def
      DefaultScopeProvider_getGlobalScope_def getGlobalScope_def createScope_def
      grammar_services_def grammar_utils_def rule_call_context_def main_document_def
      main_scopes_def example_nodes example_descriptions isGrammar_def grammar_imports_def
      AbstractType_def equalURI_def)

text \<open>
  C2, as amended. A reference whose target category is AbstractType is resolved in the
  Interface and Type entries that the precomputed scopes hold at the root node of the
  reference's container, and then in the Interface and Type index descriptions of the
  documents that the grammar imports; a local description of a name is found before any
  imported description of that name.
\<close>

theorem getScope_type_resolution:
  assumes "getReferenceType svc context = AbstractType"
  shows "getAllElements (getScope svc util context) =
           localTypeLayer svc context @ importedTypeLayer svc util context
         \<and> (\<forall>nm. getElement (getScope svc util context) nm =
               (case find (\<lambda>e. name e = nm) (localTypeLayer svc context) of
                  Some d \<Rightarrow> Some d
                | None \<Rightarrow> find (\<lambda>e. name e = nm) (importedTypeLayer svc util context)))"
  using assms by (simp add: getScope_def getTypeScope_layers getTypeScope_lookup)

lemma super_type_context_type:
  "getReferenceType grammar_services super_type_context = AbstractType"
  by (simp add: grammar_services_def super_type_context_def AbstractType_def)

lemma super_type_context_local:
  "localTypeLayer grammar_services super_type_context = [foo_type_description]"
  by (simp add: localTypeLayer_def grammar_services_def super_type_context_def
      main_document_def main_scopes_def example_nodes example_descriptions
      isInterfaceOrType_fun Interface_def Type_def)

lemma super_type_context_imported:
  "importedTypeLayer grammar_services grammar_utils super_type_context = [shared_description]"
  by (simp add: importedTypeLayer_def grammar_services_def grammar_utils_def
      super_type_context_def example_nodes example_descriptions importedBy_def
      isGrammar_def grammar_imports_def
      isInterfaceOrType_def Interface_def Type_def AbstractType_def)

text \<open>
  C2, witness: the interface's super type reference sees the local type \<open>Foo\<close>, held at
  the grammar root, before the imported type of the same name.
\<close>

theorem getScope_type_resolution_witness:
  "getReferenceType grammar_services super_type_context = AbstractType
   \<and> getAllElements (getScope grammar_services grammar_utils super_type_context)
       = [foo_type_description, shared_description]
   \<and> name shared_description = ''Foo''
   \<and> getElement (getScope grammar_services grammar_utils super_type_context) ''Foo''
       = Some foo_type_description"
  using getScope_type_resolution [OF super_type_context_type, of grammar_utils]
  by (simp add: super_type_context_type super_type_context_local super_type_context_imported)
     (simp add: example_descriptions)

text \<open>
  C2, counterexample to the claim as stated: the precomputed scopes hold nothing at the
  reference's container, the interface, so a local layer built there would leave \<open>Foo\<close>
  to the imported description; \<open>getScope\<close> returns the local one, read at the root.
\<close>

theorem getScope_container_layer_counterexample:
  "getReferenceType grammar_services super_type_context = AbstractType
   \<and> getElement (getScope grammar_services grammar_utils super_type_context) ''Foo''
       = Some foo_type_description
   \<and> getElement (getTypeScope_as_specified grammar_services grammar_utils AbstractType
                   super_type_context) ''Foo''
       = Some shared_description"
  by (simp add: getScope_def getTypeScope_def getTypeScope_as_specified_def getGlobalScope_def
      createScope_def grammar_services_def grammar_utils_def super_type_context_def
      main_document_def main_scopes_def example_nodes example_descriptions isGrammar_def
      grammar_imports_def AbstractType_def Interface_def Type_def
      equalURI_def)

lemma getScope_checked_document:
  assumes "dollar_document (findRootNode (container context)) = Some document"
  shows "getScope_checked dollar_document svc util context =
           Inr (getScope (svc\<lparr>getDocument := (\<lambda>n. document)\<rparr>) util context)"
  using assms by (simp add: getScope_checked_def getDocument_checked_def)

text \<open>
  C6, as amended. When the reference's container has no enclosing grammar,
  \<open>getGlobalScope\<close> returns the empty scope as a value. \<open>getScope\<close> raises
  \<open>AST node has no document.\<close> when the container's tree has no document; when it has
  one, the scope returned holds the local precomputed descriptions only (for an
  AbstractType reference the Interface and Type entries at the root node, otherwise the
  layers of the container chain), and is the empty scope when the document has no
  precomputed scopes.
\<close>

theorem getScope_without_grammar:
  assumes "getContainerOfType (container context) isGrammar = None"
  shows "getGlobalScope svc util referenceType context = EMPTY_SCOPE
         \<and> (dollar_document (findRootNode (container context)) = None
              \<longrightarrow> getScope_checked dollar_document svc util context
                    = Inl AstNodeHasNoDocument)
         \<and> (\<forall>document.
               dollar_document (findRootNode (container context)) = Some document
               \<longrightarrow> (\<exists>s. getScope_checked dollar_document svc util context = Inr s
                        \<and> getAllElements s =
                            (case precomputedScopes document of
                               None \<Rightarrow> []
                             | Some precomputed \<Rightarrow>
                                 if getReferenceType svc context = AbstractType
                                 then filter (\<lambda>des. type des = Interface \<or> type des = Type)
                                        (precomputed (findRootNode (container context)))
                                 else concat
                                        (localScopes precomputed
                                           (\<lambda>desc. isSubtype svc (type desc)
                                                     (getReferenceType svc context))
                                           (container context)))
                        \<and> (precomputedScopes document = None \<longrightarrow> s = EMPTY_SCOPE)))"
proof (intro conjI allI impI)
  show "getGlobalScope svc util referenceType context = EMPTY_SCOPE"
    using assms by (simp add: getGlobalScope_def)
next
  assume "dollar_document (findRootNode (container context)) = None"
  then show "getScope_checked dollar_document svc util context = Inl AstNodeHasNoDocument"
    by (simp add: getScope_checked_def getDocument_checked_def)
next
  fix document
  assume d: "dollar_document (findRootNode (container context)) = Some document"
  let ?svc = "svc\<lparr>getDocument := (\<lambda>n. document)\<rparr>"
  let ?s = "getScope ?svc util context"
  have r: "getScope_checked dollar_document svc util context = Inr ?s"
    using d by (simp add: getScope_checked_document)
  have e: "getAllElements ?s =
             (case precomputedScopes document of
                None \<Rightarrow> []
              | Some precomputed \<Rightarrow>
                  if getReferenceType svc context = AbstractType
                  then filter (\<lambda>des. type des = Interface \<or> type des = Type)
                         (precomputed (findRootNode (container context)))
                  else concat
                         (localScopes precomputed
                            (\<lambda>desc. isSubtype svc (type desc) (getReferenceType svc context))
                            (container context)))"
  proof (cases "getReferenceType svc context = AbstractType")
    case True
    then have "getReferenceType ?svc context = AbstractType" by simp
    from getScope_type_elements [OF this, of util] assms True show ?thesis
      by (simp add: localTypeLayer_def importedTypeLayer_def isInterfaceOrType_fun
          split: option.splits)
  next
    case False
    then have "getReferenceType ?svc context \<noteq> AbstractType" by simp
    from getScope_default_elements [OF this, of util] assms False show ?thesis
      by (simp split: option.splits)
  qed
  have n: "precomputedScopes document = None \<longrightarrow> ?s = EMPTY_SCOPE"
    using assms
    by (simp add: getScope_def getTypeScope_def DefaultScopeProvider_getScope_def
        getGlobalScope_def Let_def)
  from r e n
  show "\<exists>s. getScope_checked dollar_document svc util context = Inr s
            \<and> getAllElements s =
                (case precomputedScopes document of
                   None \<Rightarrow> []
                 | Some precomputed \<Rightarrow>
                     if getReferenceType svc context = AbstractType
                     then filter (\<lambda>des. type des = Interface \<or> type des = Type)
                            (precomputed (findRootNode (container context)))
                     else concat
                            (localScopes precomputed
                               (\<lambda>desc. isSubtype svc (type desc)
                                         (getReferenceType svc context))
                               (container context)))
            \<and> (precomputedScopes document = None \<longrightarrow> s = EMPTY_SCOPE)"
    by (intro exI [of _ ?s] conjI) assumption+
qed

lemma detached_context_no_grammar:
  "getContainerOfType (container detached_context) isGrammar = None"
  by (simp add: detached_context_def detached_action_def detached_rule_def isGrammar_def)

lemma detached_context_root:
  "findRootNode (container detached_context) = detached_rule"
  by (simp add: detached_context_def detached_action_def detached_rule_def)

lemma detached_context_type:
  "getReferenceType detached_services detached_context = AbstractType"
  by (simp add: detached_services_def grammar_services_def detached_context_def
      AbstractType_def)

lemma detached_context_scopes:
  "precomputedScopes (getDocument detached_services (container detached_context)) =
     Some detached_scopes"
  by (simp add: detached_services_def detached_document_def)

lemma detached_scopes_root:
  "detached_scopes detached_rule =
     [\<lparr>node = Some detached_action, name = ''Baz'', nameSegment = None,
       selectionSegment = None, type = ''Interface'',
       documentUri = ''file:///detached.langium'', path = ''/''\<rparr>]"
  by (simp add: detached_scopes_def processActionNode_def add_def
      createInterfaceDescription_def toDocumentSegment_def isAction_def inferredType_def
      grammar_services_def grammar_utils_def detached_action_def detached_rule_def)

lemma detached_documents_root:
  "detached_documents detached_rule = Some detached_document"
  "no_documents detached_rule = None"
  by (simp_all add: detached_documents_def no_documents_def)

lemma detached_document_scopes:
  "precomputedScopes detached_document = Some detached_scopes"
  by (simp add: detached_document_def)

lemma grammar_context_type:
  "getReferenceType grammar_services detached_context = AbstractType"
  by (simp add: grammar_services_def detached_context_def AbstractType_def)

text \<open>
  C6, witness: for the action's type reference in the detached rule the global scope is
  empty; without a document the request fails, and with the document the scope holds the
  one local description.
\<close>

theorem getScope_without_grammar_witness:
  "getContainerOfType (container detached_context) isGrammar = None
   \<and> getGlobalScope grammar_services grammar_utils AbstractType detached_context = EMPTY_SCOPE
   \<and> getScope_checked no_documents grammar_services grammar_utils detached_context
       = Inl AstNodeHasNoDocument
   \<and> (\<exists>s. getScope_checked detached_documents grammar_services grammar_utils detached_context
              = Inr s
            \<and> map name (getAllElements s) = [''Baz''])"
proof -
  note none =
    getScope_without_grammar
      [OF detached_context_no_grammar, of grammar_services grammar_utils AbstractType
          no_documents]
  note some =
    getScope_without_grammar
      [OF detached_context_no_grammar, of grammar_services grammar_utils AbstractType
          detached_documents]
  have 1: "getGlobalScope grammar_services grammar_utils AbstractType detached_context
             = EMPTY_SCOPE"
    using none by simp
  have 2: "getScope_checked no_documents grammar_services grammar_utils detached_context
             = Inl AstNodeHasNoDocument"
    using none by (simp add: detached_context_root detached_documents_root)
  have "\<exists>s. getScope_checked detached_documents grammar_services grammar_utils detached_context
               = Inr s
             \<and> getAllElements s = detached_scopes detached_rule"
    using some
    by (simp add: detached_context_root detached_documents_root detached_document_scopes
        grammar_context_type detached_scopes_root Interface_def)
  then have 3: "\<exists>s. getScope_checked detached_documents grammar_services grammar_utils
                        detached_context = Inr s
                      \<and> map name (getAllElements s) = [''Baz'']"
    by (auto simp: detached_scopes_root)
  from 1 2 3 detached_context_no_grammar show ?thesis by simp
qed

text \<open>
  C6, counterexample to the claim as stated: the same reference has no enclosing
  grammar; without a document \<open>getScope\<close> raises instead of returning a scope, and with the
  document the scope returned is not the empty scope: it holds \<open>Baz\<close>.
\<close>

theorem getScope_without_grammar_counterexample:
  "getContainerOfType (container detached_context) isGrammar = None
   \<and> getScope_checked no_documents grammar_services grammar_utils detached_context
       = Inl AstNodeHasNoDocument
   \<and> getScope_checked detached_documents grammar_services grammar_utils detached_context
       = Inr (StreamScope (detached_scopes detached_rule) (Some EMPTY_SCOPE))
   \<and> map name (detached_scopes detached_rule) = [''Baz'']"
proof -
  have "getScope detached_services grammar_utils detached_context =
          StreamScope (detached_scopes detached_rule) (Some EMPTY_SCOPE)"
    by (simp add: getScope_def getTypeScope_def getGlobalScope_def createScope_def
        detached_context_no_grammar detached_context_type detached_context_scopes
        detached_context_root detached_scopes_root Interface_def)
  then show ?thesis
    by (simp add: getScope_checked_def getDocument_checked_def detached_context_root
        detached_documents_root detached_context_no_grammar detached_scopes_root
        detached_services_def)
qed

section \<open>Properties of the grammar's scope computation\<close>

lemma foldl_exportAction_prefix:
  "\<exists>rest. foldl (exportAction svc util document) exports nodes = exports @ rest"
proof (induction nodes arbitrary: exports)
  case Nil
  then show ?case by simp
next
  case (Cons child nodes)
  have "\<exists>one. exportAction svc util document exports child = exports @ one"
    by (simp add: exportAction_def split: option.splits)
  then obtain one where one: "exportAction svc util document exports child = exports @ one"
    by blast
  from Cons [of "exports @ one"] obtain rest
    where "foldl (exportAction svc util document) (exports @ one) nodes = (exports @ one) @ rest"
    by blast
  with one show ?case by simp
qed

text \<open>
  C5, as amended. For a parser rule with neither \<open>returnType\<close> nor \<open>dataType\<close>,
  \<open>exportNode\<close> exports, after the rule's own export, a description tagged
  \<open>Interface\<close>. Without an \<open>infers\<close> clause it carries the rule's name and is anchored at
  the rule node, with the name segment of the rule's name node; with an \<open>infers\<close> clause
  it carries the inferred name and is anchored at the \<open>InferredType\<close> child node, with
  the name segment of that child's name node.
\<close>

theorem exportNode_inferred_rule_type:
  assumes "n = AstNode (ParserRule ruleName None None inferred) cst k"
  shows "\<exists>d rest.
           exportNode svc util n exports document =
             DefaultScopeComputation_exportNode svc n exports document @ d # rest
           \<and> type d = ''Interface''
           \<and> documentUri d = uri document
           \<and> (case inferred of
                 None \<Rightarrow>
                   name d = ruleName \<and> node d = Some n \<and> path d = getAstNodePath svc n
                   \<and> nameSegment d =
                       toDocumentSegment (case getNameNode svc n of Some c \<Rightarrow> Some c | None \<Rightarrow> cst)
               | Some (InferredType inferredName inferredCst) \<Rightarrow>
                   name d = inferredName
                   \<and> node d = Some (AstNode (InferredTypeNode inferredName) inferredCst (Some n))
                   \<and> path d =
                       getAstNodePath svc (AstNode (InferredTypeNode inferredName) inferredCst (Some n))
                   \<and> nameSegment d =
                       toDocumentSegment
                         (case getNameNode svc
                                 (AstNode (InferredTypeNode inferredName) inferredCst (Some n)) of
                            Some c \<Rightarrow> Some c
                          | None \<Rightarrow> inferredCst))"
proof -
  define own where "own = DefaultScopeComputation_exportNode svc n exports document"
  define d where "d = createInterfaceDescription svc (typeNode n) (name_of (typeNode n)) document"
  obtain rest where
    "foldl (exportAction svc util document) (own @ [d]) (streamAllContents svc n) = (own @ [d]) @ rest"
    using foldl_exportAction_prefix by blast
  then have "exportNode svc util n exports document = own @ d # rest"
    using assms
    by (simp add: exportNode_def own_def d_def isParserRule_def returnType_def dataType_def)
  moreover have "type d = ''Interface''" "documentUri d = uri document"
    by (simp_all add: d_def createInterfaceDescription_def Let_def)
  moreover have "case inferred of
                 None \<Rightarrow>
                   name d = ruleName \<and> node d = Some n \<and> path d = getAstNodePath svc n
                   \<and> nameSegment d =
                       toDocumentSegment (case getNameNode svc n of Some c \<Rightarrow> Some c | None \<Rightarrow> cst)
               | Some (InferredType inferredName inferredCst) \<Rightarrow>
                   name d = inferredName
                   \<and> node d = Some (AstNode (InferredTypeNode inferredName) inferredCst (Some n))
                   \<and> path d =
                       getAstNodePath svc (AstNode (InferredTypeNode inferredName) inferredCst (Some n))
                   \<and> nameSegment d =
                       toDocumentSegment
                         (case getNameNode svc
                                 (AstNode (InferredTypeNode inferredName) inferredCst (Some n)) of
                            Some c \<Rightarrow> Some c
                          | None \<Rightarrow> inferredCst)"
    using assms
    by (simp add: d_def createInterfaceDescription_def Let_def typeNode_def inferredType_def
        split: option.splits inferred_type.splits)
  ultimately show ?thesis unfolding own_def by blast
qed

text \<open>
  C5, witness: rule \<open>Foo\<close>, which has no \<open>infers\<close> clause.
\<close>

theorem exportNode_inferred_rule_type_witness:
  "\<exists>d rest.
     exportNode grammar_services grammar_utils foo_rule [] main_document =
       DefaultScopeComputation_exportNode grammar_services foo_rule [] main_document @ d # rest
     \<and> type d = ''Interface'' \<and> name d = ''Foo'' \<and> node d = Some foo_rule
     \<and> nameSegment d = toDocumentSegment (Some foo_token)"
proof -
  have nn: "getNameNode grammar_services foo_rule = Some foo_token"
    by (simp add: grammar_services_def foo_rule_def)
  from exportNode_inferred_rule_type
    [OF foo_rule_def, of grammar_services grammar_utils "[]" main_document]
  show ?thesis
    by (simp add: nn) blast
qed

text \<open>
  C5, counterexample to the claim as stated: for rule \<open>Qux infers Bar\<close> the synthetic
  description is anchored at the \<open>InferredType\<close> node, not at the rule, and its name
  segment is that of the token \<open>Bar\<close>, not that of the rule's name token \<open>Qux\<close>.
\<close>

theorem exportNode_anchor_counterexample:
  "isParserRule qux_rule \<and> returnType qux_rule = None \<and> dataType qux_rule = None
   \<and> map type (exportNode grammar_services grammar_utils qux_rule [] main_document)
       = [''ParserRule'', ''Interface'']
   \<and> map name (exportNode grammar_services grammar_utils qux_rule [] main_document)
       = [''Qux'', ''Bar'']
   \<and> map node (exportNode grammar_services grammar_utils qux_rule [] main_document)
       = [Some qux_rule, Some (AstNode (InferredTypeNode ''Bar'') (Some bar_token) (Some qux_rule))]
   \<and> AstNode (InferredTypeNode ''Bar'') (Some bar_token) (Some qux_rule) \<noteq> qux_rule
   \<and> map nameSegment (exportNode grammar_services grammar_utils qux_rule [] main_document)
       = [None, toDocumentSegment (Some bar_token)]
   \<and> getNameNode grammar_services qux_rule = Some qux_token
   \<and> toDocumentSegment (Some bar_token) \<noteq> toDocumentSegment (Some qux_token)"
proof -
  have t: "typeNode qux_rule = AstNode (InferredTypeNode ''Bar'') (Some bar_token) (Some qux_rule)"
    by (simp add: typeNode_def inferredType_def qux_rule_def)
  have c: "streamAllContents grammar_services qux_rule = []"
    by (simp add: grammar_services_def qux_rule_def foo_rule_def)
  have r: "isParserRule qux_rule" "returnType qux_rule = None" "dataType qux_rule = None"
    by (simp_all add: isParserRule_def returnType_def dataType_def qux_rule_def)
  have n: "getNameNode grammar_services qux_rule = Some qux_token"
    by (simp add: grammar_services_def qux_rule_def)
  have e: "exportNode grammar_services grammar_utils qux_rule [] main_document =
             [createDescription grammar_services qux_rule ''Qux'' main_document,
              createInterfaceDescription grammar_services
                (AstNode (InferredTypeNode ''Bar'') (Some bar_token) (Some qux_rule)) ''Bar''
                main_document]"
    by (simp add: exportNode_def r t c DefaultScopeComputation_exportNode_def)
       (simp add: grammar_services_def qux_rule_def)
  have s: "toDocumentSegment (Some bar_token) \<noteq> toDocumentSegment (Some qux_token)"
    by (simp add: toDocumentSegment_def bar_token_def qux_token_def)
  have d: "AstNode (InferredTypeNode ''Bar'') (Some bar_token) (Some qux_rule) \<noteq> qux_rule"
    by (simp add: qux_rule_def)
  show ?thesis
    unfolding e using r n s d
    by (simp add: createInterfaceDescription_def grammar_services_def)
qed

lemma add_other_key: "key \<noteq> k \<Longrightarrow> add scopes k v key = scopes key"
  by (simp add: add_def)

lemma add_same_key: "add scopes k v k = scopes k @ [v]"
  by (simp add: add_def)

lemma findRootNode_is_root: "dollar_container (findRootNode n) = None"
  by (induction n rule: findRootNode.induct) simp_all

text \<open>
  C8. For an action with an inferred type, \<open>processActionNode\<close> adds the synthetic
  description to the precomputed scope of the root node of the action's tree and to no
  other key, so every AbstractType reference of the document finds it; for a parser rule
  with an inferred type, \<open>processTypeNode\<close> adds the description to the rule's immediate
  container and to no other key.
\<close>

theorem processActionNode_root_scope:
  assumes "isAction n" and "inferredType n \<noteq> None"
    and "getActionType util n = Some typeName" and "typeName \<noteq> []"
    and "isParserRule r" and "returnType r = None" and "dataType r = None"
    and "dollar_container r = Some k"
  shows "processActionNode svc util n document scopes =
           add scopes (findRootNode n) (createInterfaceDescription svc n typeName document)
         \<and> dollar_container (findRootNode n) = None
         \<and> (\<forall>key. key \<noteq> findRootNode n
               \<longrightarrow> processActionNode svc util n document scopes key = scopes key)
         \<and> (\<forall>context.
               getReferenceType svc context = AbstractType
               \<and> findRootNode (container context) = findRootNode n
               \<and> precomputedScopes (getDocument svc (container context)) =
                   Some (processActionNode svc util n document scopes)
               \<longrightarrow> createInterfaceDescription svc n typeName document
                     \<in> set (getAllElements (getScope svc util context)))
         \<and> processTypeNode svc r document scopes =
             add scopes k
               (createInterfaceDescription svc (typeNode r) (name_of (typeNode r)) document)
         \<and> (\<forall>key. key \<noteq> k \<longrightarrow> processTypeNode svc r document scopes key = scopes key)"
proof -
  let ?d = "createInterfaceDescription svc n typeName document"
  have a: "processActionNode svc util n document scopes = add scopes (findRootNode n) ?d"
    using assms(1-4) by (simp add: processActionNode_def Let_def)
  have t: "processTypeNode svc r document scopes =
             add scopes k
               (createInterfaceDescription svc (typeNode r) (name_of (typeNode r)) document)"
    using assms(5-8) by (simp add: processTypeNode_def)
  have v: "?d \<in> set (getAllElements (getScope svc util ctx))"
    if "getReferenceType svc ctx = AbstractType"
      and "findRootNode (container ctx) = findRootNode n"
      and "precomputedScopes (getDocument svc (container ctx)) =
             Some (processActionNode svc util n document scopes)"
    for ctx
  proof -
    have "type ?d = Interface"
      by (simp add: createInterfaceDescription_def Let_def Interface_def)
    then have "?d \<in> set (localTypeLayer svc ctx)"
      using that by (simp add: localTypeLayer_def a add_same_key isInterfaceOrType_def)
    then show ?thesis
      using that(1) by (simp add: getScope_type_elements)
  qed
  show ?thesis
    using a t v by (simp add: add_other_key findRootNode_is_root)
qed

lemma infer_action_root: "findRootNode infer_action = main_grammar"
  by (simp add: infer_action_def foo_group_def foo_rule_def main_grammar_def)

text \<open>
  C8, witness: the action \<open>{infer Baz}\<close> lies in a group of rule \<open>Foo\<close>; its
  description goes to the grammar root and not to the group, and that of rule \<open>Foo\<close> goes
  to the rule's container.
\<close>

theorem processActionNode_root_scope_witness:
  "findRootNode infer_action = main_grammar
   \<and> dollar_container infer_action = Some foo_group
   \<and> foo_group \<noteq> main_grammar
   \<and> map name (processActionNode grammar_services grammar_utils infer_action main_document
                  (\<lambda>key. []) main_grammar) = [''Baz'']
   \<and> processActionNode grammar_services grammar_utils infer_action main_document
        (\<lambda>key. []) foo_group = []
   \<and> map name (processTypeNode grammar_services foo_rule main_document
                  (\<lambda>key. []) main_grammar) = [''Foo'']"
proof -
  have h: "isAction infer_action" "inferredType infer_action \<noteq> None"
    "getActionType grammar_utils infer_action = Some ''Baz''" "''Baz'' \<noteq> []"
    "isParserRule foo_rule" "returnType foo_rule = None" "dataType foo_rule = None"
    "dollar_container foo_rule = Some main_grammar"
    by (simp_all add: isAction_def inferredType_def grammar_utils_def infer_action_def
        isParserRule_def returnType_def dataType_def foo_rule_def)
  have g: "foo_group \<noteq> main_grammar"
    by (simp add: foo_group_def main_grammar_def)
  have c: "dollar_container infer_action = Some foo_group"
    by (simp add: infer_action_def)
  have n: "name_of (typeNode foo_rule) = ''Foo''"
    by (simp add: typeNode_def inferredType_def foo_rule_def)
  from processActionNode_root_scope
    [OF h, of grammar_services main_document "\<lambda>key. []"] g c n
  show ?thesis
    by (simp add: infer_action_root add_def createInterfaceDescription_def Let_def)
qed


end
